theory Spec2Isabelle
  imports Complex_Main "HOL-Library.Word"
begin

section \<open>API client: key validation and error taxonomy (sportradarAPI.ts)\<close>

text \<open>
  A JavaScript string is a sequence of UTF-16 code units; \<open>length\<close> counts code units
  and \<open>trim\<close> strips the ECMAScript WhiteSpace and LineTerminator code points from both
  ends. The API key is modelled as a list of 16-bit words so that both are exact.
\<close>

type_synonym js_string = "16 word list"

definition is_js_whitespace :: "16 word \<Rightarrow> bool" where
  "is_js_whitespace c \<longleftrightarrow>
     c = 0x09 \<or> c = 0x0A \<or> c = 0x0B \<or> c = 0x0C \<or> c = 0x0D \<or> c = 0x20 \<or>
     c = 0xA0 \<or> c = 0x1680 \<or> (0x2000 \<le> c \<and> c \<le> 0x200A) \<or>
     c = 0x2028 \<or> c = 0x2029 \<or> c = 0x202F \<or> c = 0x205F \<or> c = 0x3000 \<or> c = 0xFEFF"

definition trim :: "js_string \<Rightarrow> js_string" where
  "trim s = rev (dropWhile is_js_whitespace (rev (dropWhile is_js_whitespace s)))"

text \<open>
  \<open>APIError\<close>: the optional HTTP status, the optional machine-readable code and the
  optional retry-after value. The human-readable message is not modelled. The
  retry-after value is left uninterpreted: \<open>ParseInt h\<close> stands for the number that
  \<open>Number.parseInt\<close> returns on the header value \<open>h\<close>.
\<close>

datatype js_number = ParseInt string

record api_error =
  err_status :: "int option"
  err_code :: "string option"
  err_retryAfter :: "js_number option"

definition APIError :: "int option \<Rightarrow> string option \<Rightarrow> js_number option \<Rightarrow> api_error" where
  "APIError st c ra = \<lparr>err_status = st, err_code = c, err_retryAfter = ra\<rparr>"

text \<open>
  The part of the client that the constructor builds once validation has passed: the
  axios instance with its base URL, its timeout and the key as query parameter. All
  network requests go through this instance.
\<close>

record client =
  client_apiKey :: js_string
  client_baseURL :: string
  client_timeout :: int

text \<open>
  The base URL: \<open>baseURL || (isDevelopment ? "/api/sportradar" : envBaseURL || fallback)\<close>;
  an absent or empty string is falsy.
\<close>

definition truthy_string :: "string option \<Rightarrow> bool" where
  "truthy_string s = (case s of None \<Rightarrow> False | Some t \<Rightarrow> t \<noteq> [])"

definition defaultBaseURL :: "string option \<Rightarrow> bool \<Rightarrow> string option \<Rightarrow> string" where
  "defaultBaseURL baseURL isDevelopment envBaseURL =
     (if truthy_string baseURL then the baseURL
      else if isDevelopment then ''/api/sportradar''
      else if truthy_string envBaseURL then the envBaseURL
      else ''https://api.sportradar.com/soccer/trial/v4/en'')"

text \<open>
  The constructor of \<open>SportradarAPI\<close>. A \<open>throw\<close> is the left summand; the axios instance
  is created only after both checks have passed.
\<close>

definition constructor ::
  "js_string \<Rightarrow> string option \<Rightarrow> bool \<Rightarrow> string option \<Rightarrow> api_error + client" where
  "constructor apiKey baseURL isDevelopment envBaseURL =
     (if apiKey = [] \<or> trim apiKey = [] then
        Inl (APIError None (Some ''MISSING_API_KEY'') None)
      else if length apiKey < 20 then
        Inl (APIError None (Some ''INVALID_API_KEY_FORMAT'') None)
      else
        Inr \<lparr>client_apiKey = apiKey,
             client_baseURL = defaultBaseURL baseURL isDevelopment envBaseURL,
             client_timeout = 30000\<rparr>)"

text \<open>
  The error that axios hands to the response interceptor: the response, when one was
  received (status, the \<open>retry-after\<close> header, the \<open>code\<close> field of the body), whether a
  request object exists, and the transport error code.
\<close>

record http_response =
  resp_status :: int
  resp_retry_after :: "string option"
  resp_data_code :: "string option"

record axios_error =
  ax_response :: "http_response option"
  ax_has_request :: bool
  ax_code :: "string option"

text \<open>
  The rejection handler of the response interceptor. It always throws; the model returns
  the thrown \<open>APIError\<close>.
\<close>

definition response_interceptor :: "axios_error \<Rightarrow> api_error" where
  "response_interceptor error =
     (case ax_response error of
        Some response \<Rightarrow>
          (let status = resp_status response;
               retryAfter = (if truthy_string (resp_retry_after response)
                             then Some (ParseInt (the (resp_retry_after response)))
                             else None)
           in if status = 401 then APIError (Some status) (Some ''INVALID_API_KEY'') None
              else if status = 403 then APIError (Some status) (Some ''INSUFFICIENT_PERMISSIONS'') None
              else if status = 429 then APIError (Some status) (Some ''RATE_LIMIT'') retryAfter
              else if status = 404 then APIError (Some status) (Some ''NOT_FOUND'') None
              else if status = 500 then APIError (Some status) (Some ''SERVER_ERROR'') None
              else if status = 503 then APIError (Some status) (Some ''SERVICE_UNAVAILABLE'') retryAfter
              else APIError (Some status) (resp_data_code response) None)
      | None \<Rightarrow>
          if ax_has_request error then
            (if ax_code error = Some ''ECONNABORTED'' then APIError None (Some ''TIMEOUT'') None
             else if ax_code error = Some ''ENOTFOUND'' then APIError None (Some ''DNS_ERROR'') None
             else APIError None (Some ''NETWORK_ERROR'') None)
          else APIError None (Some ''UNKNOWN'') None)"


section \<open>Token bucket (tokenBucketRateLimiter.ts)\<close>

text \<open>
  JavaScript numbers are modelled exactly: a timestamp (\<open>Date.now()\<close>, milliseconds)
  is an \<open>int\<close>, a token count or a rate is a \<open>rat\<close>. Rounding of IEEE doubles is not
  modelled. Every function that reads the clock takes the value read as \<open>now\<close>.
\<close>

record token_bucket_config =
  cfg_capacity :: rat
  cfg_refillRate :: rat
  cfg_refillInterval :: int
  cfg_initialTokens :: "rat option"

record token_bucket =
  tokens :: rat
  lastRefill :: int
  capacity :: rat
  refillRate :: rat
  refillInterval :: int

definition TokenBucketRateLimiter :: "token_bucket_config \<Rightarrow> int \<Rightarrow> token_bucket" where
  "TokenBucketRateLimiter config now =
     \<lparr>tokens = (case cfg_initialTokens config of Some t \<Rightarrow> t | None \<Rightarrow> cfg_capacity config),
      lastRefill = now,
      capacity = cfg_capacity config,
      refillRate = cfg_refillRate config,
      refillInterval = cfg_refillInterval config\<rparr>"

definition SPORTRADAR_RATE_LIMITS_trial :: token_bucket_config where
  "SPORTRADAR_RATE_LIMITS_trial =
     \<lparr>cfg_capacity = 1, cfg_refillRate = 1 / 90, cfg_refillInterval = 1000,
      cfg_initialTokens = Some 1\<rparr>"

definition SPORTRADAR_RATE_LIMITS_production :: token_bucket_config where
  "SPORTRADAR_RATE_LIMITS_production =
     \<lparr>cfg_capacity = 10, cfg_refillRate = 5, cfg_refillInterval = 200,
      cfg_initialTokens = Some 5\<rparr>"





section \<open>Queue, retries and circuit breaker (advancedRateLimiter.ts)\<close>

text \<open>
  The error a request function rejects with, as far as the limiter reads it: the status,
  the message, and the number \<open>Number.parseInt(error.retryAfter || error.headers?.["retry-after"])\<close>
  when that retry-after value is present and truthy.
\<close>

record request_error =
  re_status :: "int option"
  re_message :: "string option"
  re_retryAfter :: "int option"

datatype 'a outcome = Fulfilled 'a | Failed request_error

text \<open>
  A queued request. \<open>q_id\<close> identifies the caller's promise (its \<open>resolve\<close>/\<open>reject\<close> pair).
  \<open>requestFn\<close> is a thunk whose result depends on the network: the model gives it as the
  list of its future runs, each the time the run takes and how its promise settles. A
  run of a request whose list is exhausted never settles.
\<close>

record 'a queued_request =
  q_id :: nat
  q_requestFn :: "(int \<times> 'a outcome) list"
  q_retryCount :: nat
  q_timestamp :: int

datatype reject_reason = CircuitBreakerOpen | RequestFailed request_error

datatype 'a event = Executed nat | Resolved nat 'a | Rejected nat reject_reason

text \<open>
  The limiter. Besides the fields of the class, the state records the retry timers set
  with \<open>setTimeout\<close> (due time and request), the log of what happened to each
  caller, and the values \<open>Math.random()\<close> will return (0 once the list is used up).
\<close>

record 'a limiter =
  tokenBucket :: token_bucket
  requestQueue :: "'a queued_request list"
  isProcessing :: bool
  circuitBreakerFailures :: int
  circuitBreakerThreshold :: int
  circuitBreakerResetTime :: int
  lastCircuitBreakerTrip :: int
  maxRetries :: nat
  retryTimers :: "(rat \<times> 'a queued_request) list"
  events :: "'a event list"
  randoms :: "rat list"

definition AdvancedRateLimiter :: "nat \<Rightarrow> int \<Rightarrow> rat list \<Rightarrow> 'a limiter" where
  "AdvancedRateLimiter maxRetries' now rs =
     \<lparr>tokenBucket = TokenBucketRateLimiter SPORTRADAR_RATE_LIMITS_trial now,
      requestQueue = [],
      isProcessing = False,
      circuitBreakerFailures = 0,
      circuitBreakerThreshold = 5,
      circuitBreakerResetTime = 300000,
      lastCircuitBreakerTrip = 0,
      maxRetries = maxRetries',
      retryTimers = [],
      events = [],
      randoms = rs\<rparr>"

definition isCircuitBreakerOpen :: "int \<Rightarrow> 'a limiter \<Rightarrow> bool \<times> 'a limiter" where
  "isCircuitBreakerOpen now s =
     (if circuitBreakerFailures s \<ge> circuitBreakerThreshold s then
        (let timeSinceTrip = now - lastCircuitBreakerTrip s
         in if timeSinceTrip < circuitBreakerResetTime s then (True, s)
            else (False, s\<lparr>circuitBreakerFailures := 0, lastCircuitBreakerTrip := 0\<rparr>))
      else (False, s))"

text \<open>String helpers: \<open>String.prototype.includes\<close> and \<open>toLowerCase\<close> on ASCII letters.\<close>

fun str_includes :: "string \<Rightarrow> string \<Rightarrow> bool" where
  "str_includes [] sub = (sub = [])"
| "str_includes (c # cs) sub = (take (length sub) (c # cs) = sub \<or> str_includes cs sub)"

definition toLowerCase :: "string \<Rightarrow> string" where
  "toLowerCase s =
     map (\<lambda>c. if 65 \<le> (of_char c :: nat) \<and> (of_char c :: nat) \<le> 90
              then char_of ((of_char c :: nat) + 32) else c) s"

definition isRateLimitError :: "request_error \<Rightarrow> bool" where
  "isRateLimitError error \<longleftrightarrow>
     re_status error = Some 429 \<or>
     (case re_message error of
        None \<Rightarrow> False
      | Some m \<Rightarrow> m \<noteq> [] \<and> str_includes (toLowerCase m) ''rate limit'')"

definition message_includes :: "request_error \<Rightarrow> string \<Rightarrow> bool" where
  "message_includes error sub = (case re_message error of None \<Rightarrow> False | Some m \<Rightarrow> str_includes m sub)"

definition calculateBackoffDelay :: "nat \<Rightarrow> request_error \<Rightarrow> rat \<Rightarrow> rat" where
  "calculateBackoffDelay retryCount error random =
     (case re_retryAfter error of
        Some retryAfter \<Rightarrow> of_int retryAfter * 1000
      | None \<Rightarrow>
          (let is429Error = (re_status error = Some 429 \<or> message_includes error ''429''
                              \<or> message_includes error ''Rate limit'');
               baseDelay = (if is429Error then 120000 else 30000);
               exponentialDelay = baseDelay * 2 ^ retryCount;
               jitter = random * 1000
           in min (exponentialDelay + jitter) (if is429Error then 900000 else 300000)))"

definition next_random :: "'a limiter \<Rightarrow> rat \<times> 'a limiter" where
  "next_random s = (case randoms s of [] \<Rightarrow> (0, s) | r # rs \<Rightarrow> (r, s\<lparr>randoms := rs\<rparr>))"

definition handleRequestError ::
  "int \<Rightarrow> 'a queued_request \<Rightarrow> request_error \<Rightarrow> 'a limiter \<Rightarrow> 'a limiter" where
  "handleRequestError now request error s =
     (if isRateLimitError error \<and> q_retryCount request < maxRetries s then
        (let (random, s1) = (case re_retryAfter error of Some _ \<Rightarrow> (0, s) | None \<Rightarrow> next_random s);
             backoffDelay = calculateBackoffDelay (q_retryCount request) error random;
             request' = request\<lparr>q_retryCount := q_retryCount request + 1\<rparr>
         in s1\<lparr>retryTimers := retryTimers s1 @ [(of_int now + backoffDelay, request')]\<rparr>)
      else
        (let s1 = (if isRateLimitError error
                   then (case re_retryAfter error of Some _ \<Rightarrow> s | None \<Rightarrow> snd (next_random s))
                   else s);
             s2 = s1\<lparr>circuitBreakerFailures := circuitBreakerFailures s1 + 1\<rparr>;
             s3 = (if circuitBreakerFailures s2 \<ge> circuitBreakerThreshold s2
                   then s2\<lparr>lastCircuitBreakerTrip := now\<rparr> else s2)
         in s3\<lparr>events := events s3 @ [Rejected (q_id request) (RequestFailed error)]\<rparr>))"








text \<open>
  An error handled by \<open>handleRequestError\<close> is recorded as a failure of the breaker
  unless it is a rate-limit error of a request that still has retries left, which is
  rescheduled instead. \<open>handle_errors\<close> handles a sequence of errors, each with the time
  and the request it belongs to.
\<close>

definition recorded_as_failure :: "'a limiter \<Rightarrow> 'a queued_request \<Rightarrow> request_error \<Rightarrow> bool" where
  "recorded_as_failure s request err \<longleftrightarrow>
     \<not> (isRateLimitError err \<and> q_retryCount request < maxRetries s)"

fun handle_errors ::
  "'a limiter \<Rightarrow> (int \<times> 'a queued_request \<times> request_error) list \<Rightarrow> 'a limiter" where
  "handle_errors s [] = s"
| "handle_errors s ((now, request, err) # rest) =
     handle_errors (handleRequestError now request err s) rest"

text \<open>
  A scenario: a limiter created at time 0 with one retry, as the API client creates it;
  six requests admitted at time 0, the first five answered with HTTP 500 after 100 ms,
  the sixth answered successfully; and the loop observed after five passes.
\<close>

abbreviation server_error :: request_error where
  "server_error \<equiv> \<lparr>re_status = Some 500, re_message = Some ''Server error'', re_retryAfter = None\<rparr>"




section \<open>Priority scheduling (enhanced rate limiter)\<close>














section \<open>Response cache (cache manager)\<close>

text \<open>
  A JavaScript \<open>Map\<close> iterates in insertion order, and \<open>evictOldest\<close> depends on that
  order, so the cache is an association list with distinct keys. \<open>map_set\<close> and
  \<open>map_delete\<close> are \<open>Map.prototype.set\<close> and \<open>Map.prototype.delete\<close>.
\<close>

record 'v cache_entry =
  ce_data :: 'v
  ce_timestamp :: int
  ce_expiresAt :: int
  ce_accessCount :: nat
  ce_lastAccessed :: int

record cache_config =
  defaultTTL :: int
  maxSize :: int
  compressionEnabled :: bool

definition default_cache_config :: cache_config where
  "default_cache_config = \<lparr>defaultTTL = 5 * 60 * 1000, maxSize = 1000, compressionEnabled = False\<rparr>"

type_synonym 'v cache = "(string \<times> 'v cache_entry) list"

fun map_set :: "string \<Rightarrow> 'e \<Rightarrow> (string \<times> 'e) list \<Rightarrow> (string \<times> 'e) list" where
  "map_set k v [] = [(k, v)]"
| "map_set k v ((k', v') # m) = (if k' = k then (k, v) # m else (k', v') # map_set k v m)"

definition map_delete :: "string \<Rightarrow> (string \<times> 'e) list \<Rightarrow> (string \<times> 'e) list" where
  "map_delete k m = filter (\<lambda>kv. fst kv \<noteq> k) m"

text \<open>
  \<open>evictOldest\<close>: the scan starts from the empty key and the current time, and replaces
  them by every entry accessed strictly earlier; the key found is deleted if it is truthy
  (not the empty string).
\<close>

definition evictOldest :: "int \<Rightarrow> 'v cache \<Rightarrow> 'v cache" where
  "evictOldest now cache =
     (let (oldestKey, oldestTime) =
            foldl (\<lambda>(oldestKey, oldestTime) (key, entry).
                     if ce_lastAccessed entry < oldestTime then (key, ce_lastAccessed entry)
                     else (oldestKey, oldestTime))
                  ([], now) cache
      in if oldestKey \<noteq> [] then map_delete oldestKey cache else cache)"

text \<open>
  \<open>set\<close>: \<open>now\<close> is the clock read by \<open>set\<close>, \<open>now_evict\<close> the later read inside
  \<open>evictOldest\<close>. A missing or zero \<open>ttl\<close> is falsy and gives the default.
\<close>

definition cache_set ::
  "cache_config \<Rightarrow> int \<Rightarrow> int \<Rightarrow> string \<Rightarrow> 'v \<Rightarrow> int option \<Rightarrow> 'v cache \<Rightarrow> 'v cache" where
  "cache_set config now now_evict key data' ttl cache =
     (let timeToLive = (case ttl of None \<Rightarrow> defaultTTL config
                        | Some t \<Rightarrow> if t \<noteq> 0 then t else defaultTTL config);
          cache1 = (if int (length cache) \<ge> maxSize config then evictOldest now_evict cache
                    else cache);
          entry = \<lparr>ce_data = data', ce_timestamp = now, ce_expiresAt = now + timeToLive,
                   ce_accessCount = 0, ce_lastAccessed = now\<rparr>
      in map_set key entry cache1)"

definition cache_get :: "int \<Rightarrow> string \<Rightarrow> 'v cache \<Rightarrow> 'v option \<times> 'v cache" where
  "cache_get now key cache =
     (case map_of cache key of
        None \<Rightarrow> (None, cache)
      | Some entry \<Rightarrow>
          if now > ce_expiresAt entry then (None, map_delete key cache)
          else (Some (ce_data entry),
                map_set key (entry\<lparr>ce_accessCount := ce_accessCount entry + 1,
                                   ce_lastAccessed := now\<rparr>) cache))"

section \<open>Request deduplication (request deduplicator)\<close>

text \<open>
  A promise is identified by the number of the factory call that created it: the state
  counts the calls of \<open>requestFn\<close> made so far. \<open>deduplicate\<close> returns the promise whose
  outcome the caller observes. \<open>now\<close> is the clock read by \<open>cleanupExpiredRequests\<close>,
  \<open>now_reg\<close> the later read that stamps a new registration.
\<close>

record pending_request =
  pr_promise :: nat
  pr_timestamp :: int

record deduplicator =
  pendingRequests :: "string \<rightharpoonup> pending_request"
  factoryCalls :: nat

definition requestTTL :: int where
  "requestTTL = 30000"

definition cleanupExpiredRequests :: "int \<Rightarrow> deduplicator \<Rightarrow> deduplicator" where
  "cleanupExpiredRequests now s =
     s\<lparr>pendingRequests :=
         (\<lambda>key. case pendingRequests s key of
                  None \<Rightarrow> None
                | Some request \<Rightarrow>
                    if now - pr_timestamp request > requestTTL then None else Some request)\<rparr>"

definition deduplicate :: "string \<Rightarrow> int \<Rightarrow> int \<Rightarrow> deduplicator \<Rightarrow> nat \<times> deduplicator" where
  "deduplicate key now now_reg s =
     (let s1 = cleanupExpiredRequests now s
      in case pendingRequests s1 key of
           Some existing \<Rightarrow> (pr_promise existing, s1)
         | None \<Rightarrow>
             (let promise = factoryCalls s1
              in (promise,
                  s1\<lparr>pendingRequests :=
                        (pendingRequests s1)(key \<mapsto> \<lparr>pr_promise = promise, pr_timestamp = now_reg\<rparr>),
                      factoryCalls := Suc promise\<rparr>)))"

text \<open>
  The \<open>finally\<close> callback of a promise created for \<open>key\<close>, run when that promise settles
  (fulfilled or rejected): it deletes whatever is registered under \<open>key\<close>.
\<close>

definition settle :: "string \<Rightarrow> deduplicator \<Rightarrow> deduplicator" where
  "settle key s = s\<lparr>pendingRequests := (pendingRequests s)(key := None)\<rparr>"

text \<open>
  What can happen between two calls: other calls of \<open>deduplicate\<close> and promises
  settling.
\<close>

datatype dedup_event = Call string int int | Settle string

fun dedup_step :: "deduplicator \<Rightarrow> dedup_event \<Rightarrow> deduplicator" where
  "dedup_step s (Call key now now_reg) = snd (deduplicate key now now_reg s)"
| "dedup_step s (Settle key) = settle key s"

text \<open>
  An event leaves a registration made for \<open>key\<close> at time \<open>registered\<close> in place when
  it is a call whose sweep runs no later than \<open>requestTTL\<close> after \<open>registered\<close>, or the
  settling of a promise created for another key.
\<close>

fun leaves_registered :: "string \<Rightarrow> int \<Rightarrow> dedup_event \<Rightarrow> bool" where
  "leaves_registered key registered (Call k now now_reg) = (now - registered \<le> requestTTL)"
| "leaves_registered key registered (Settle k) = (k \<noteq> key)"

section \<open>Metrics (API monitor)\<close>












section \<open>Properties of the API client\<close>

lemma dropWhile_all_iff: "(\<forall>x\<in>set (dropWhile P s). P x) \<longleftrightarrow> (\<forall>x\<in>set s. P x)"
  by (induction s) auto

lemma trim_empty_iff: "trim s = [] \<longleftrightarrow> (\<forall>c\<in>set s. is_js_whitespace c)"
  by (simp add: trim_def dropWhile_all_iff)

text \<open>
  C10, as the constructor behaves: a key that is empty or consists of whitespace only is
  refused with code \<open>MISSING_API_KEY\<close>, whatever its length; a key with a non-whitespace
  character and fewer than 20 code units is refused with \<open>INVALID_API_KEY_FORMAT\<close>; a key
  with a non-whitespace character and at least 20 code units passes, and the client is
  built with that key. In the two failing cases no client exists, so no request can have
  been issued.
\<close>

theorem constructor_key_validation:
  "((\<forall>c\<in>set apiKey. is_js_whitespace c) \<longrightarrow>
      constructor apiKey baseURL isDevelopment envBaseURL =
        Inl (APIError None (Some ''MISSING_API_KEY'') None)) \<and>
   ((\<exists>c\<in>set apiKey. \<not> is_js_whitespace c) \<and> length apiKey < 20 \<longrightarrow>
      constructor apiKey baseURL isDevelopment envBaseURL =
        Inl (APIError None (Some ''INVALID_API_KEY_FORMAT'') None)) \<and>
   ((\<exists>c\<in>set apiKey. \<not> is_js_whitespace c) \<and> 20 \<le> length apiKey \<longrightarrow>
      (\<exists>cl. constructor apiKey baseURL isDevelopment envBaseURL = Inr cl \<and>
            client_apiKey cl = apiKey))"
proof (cases "\<forall>c\<in>set apiKey. is_js_whitespace c")
  case True
  then have "trim apiKey = []" by (simp add: trim_empty_iff)
  with True show ?thesis by (simp add: constructor_def)
next
  case False
  then have t: "trim apiKey \<noteq> []" by (simp add: trim_empty_iff)
  from False have n: "apiKey \<noteq> []" by auto
  from False t n show ?thesis by (auto simp: constructor_def)
qed

text \<open>
  The three cases of C10 at concrete keys: the empty key, a key of a space and a tab, the
  key \<open>abc\<close>, and a key of twenty letters \<open>a\<close>.
\<close>

theorem constructor_key_validation_witness:
  "constructor [] None False None = Inl (APIError None (Some ''MISSING_API_KEY'') None) \<and>
   constructor [0x20, 0x09] None False None = Inl (APIError None (Some ''MISSING_API_KEY'') None) \<and>
   constructor [0x61, 0x62, 0x63] None False None =
     Inl (APIError None (Some ''INVALID_API_KEY_FORMAT'') None) \<and>
   (\<exists>cl. constructor (replicate 20 0x61) None False None = Inr cl \<and>
         client_apiKey cl = replicate 20 0x61)"
  using constructor_key_validation [of "[]" None False None]
    constructor_key_validation [of "[0x20, 0x09]" None False None]
    constructor_key_validation [of "[0x61, 0x62, 0x63]" None False None]
    constructor_key_validation [of "replicate 20 0x61" None False None]
  by (simp add: is_js_whitespace_def)

text \<open>
  C10 as stated fails: a key of twenty spaces has length 20, yet the constructor refuses
  it with \<open>MISSING_API_KEY\<close>.
\<close>

theorem constructor_long_blank_key_counterexample:
  "length (replicate 20 (0x20 :: 16 word)) \<ge> 20 \<and>
   constructor (replicate 20 0x20) None False None =
     Inl (APIError None (Some ''MISSING_API_KEY'') None)"
  by (simp add: constructor_def trim_def is_js_whitespace_def)

text \<open>
  C8, as the interceptor classifies: with a response, status 401, 403, 429, 404, 500 and
  503 give \<open>INVALID_API_KEY\<close>, \<open>INSUFFICIENT_PERMISSIONS\<close>, \<open>RATE_LIMIT\<close>, \<open>NOT_FOUND\<close>,
  \<open>SERVER_ERROR\<close> and \<open>SERVICE_UNAVAILABLE\<close>, with the parsed \<open>retry-after\<close> header (when
  present and non-empty) on 429 and 503 only; every other status, the other 5xx
  included, gives the status and the \<open>code\<close> field of the response body, which may be
  absent. Without a response but with a request, transport code \<open>ECONNABORTED\<close> gives
  \<open>TIMEOUT\<close>, \<open>ENOTFOUND\<close> gives \<open>DNS_ERROR\<close>, anything else \<open>NETWORK_ERROR\<close>. With
  neither, the code is \<open>UNKNOWN\<close>.
\<close>

theorem response_interceptor_taxonomy:
  "(ax_response e = Some r \<longrightarrow>
      (resp_status r = 401 \<longrightarrow>
         response_interceptor e = APIError (Some 401) (Some ''INVALID_API_KEY'') None) \<and>
      (resp_status r = 403 \<longrightarrow>
         response_interceptor e = APIError (Some 403) (Some ''INSUFFICIENT_PERMISSIONS'') None) \<and>
      (resp_status r = 429 \<longrightarrow>
         response_interceptor e = APIError (Some 429) (Some ''RATE_LIMIT'')
           (if truthy_string (resp_retry_after r)
            then Some (ParseInt (the (resp_retry_after r))) else None)) \<and>
      (resp_status r = 404 \<longrightarrow>
         response_interceptor e = APIError (Some 404) (Some ''NOT_FOUND'') None) \<and>
      (resp_status r = 500 \<longrightarrow>
         response_interceptor e = APIError (Some 500) (Some ''SERVER_ERROR'') None) \<and>
      (resp_status r = 503 \<longrightarrow>
         response_interceptor e = APIError (Some 503) (Some ''SERVICE_UNAVAILABLE'')
           (if truthy_string (resp_retry_after r)
            then Some (ParseInt (the (resp_retry_after r))) else None)) \<and>
      (resp_status r \<notin> {401, 403, 429, 404, 500, 503} \<longrightarrow>
         response_interceptor e = APIError (Some (resp_status r)) (resp_data_code r) None)) \<and>
   (ax_response e = None \<and> ax_has_request e \<longrightarrow>
      (ax_code e = Some ''ECONNABORTED'' \<longrightarrow>
         response_interceptor e = APIError None (Some ''TIMEOUT'') None) \<and>
      (ax_code e = Some ''ENOTFOUND'' \<longrightarrow>
         response_interceptor e = APIError None (Some ''DNS_ERROR'') None) \<and>
      (ax_code e \<noteq> Some ''ECONNABORTED'' \<and> ax_code e \<noteq> Some ''ENOTFOUND'' \<longrightarrow>
         response_interceptor e = APIError None (Some ''NETWORK_ERROR'') None)) \<and>
   (ax_response e = None \<and> \<not> ax_has_request e \<longrightarrow>
      response_interceptor e = APIError None (Some ''UNKNOWN'') None)"
  by (simp add: response_interceptor_def Let_def)

text \<open>
  C8 at concrete errors: a 429 with \<open>retry-after: 120\<close>, a 502 whose body carries a code,
  a timeout, another transport failure, and an error raised before any request was made.
\<close>

theorem response_interceptor_taxonomy_witness:
  "response_interceptor
     \<lparr>ax_response = Some \<lparr>resp_status = 429, resp_retry_after = Some ''120'', resp_data_code = None\<rparr>,
      ax_has_request = True, ax_code = None\<rparr>
     = APIError (Some 429) (Some ''RATE_LIMIT'') (Some (ParseInt ''120'')) \<and>
   response_interceptor
     \<lparr>ax_response = Some \<lparr>resp_status = 502, resp_retry_after = None,
                          resp_data_code = Some ''BAD_GATEWAY''\<rparr>,
      ax_has_request = True, ax_code = None\<rparr>
     = APIError (Some 502) (Some ''BAD_GATEWAY'') None \<and>
   response_interceptor \<lparr>ax_response = None, ax_has_request = True, ax_code = Some ''ECONNABORTED''\<rparr>
     = APIError None (Some ''TIMEOUT'') None \<and>
   response_interceptor \<lparr>ax_response = None, ax_has_request = True, ax_code = Some ''ERR_NETWORK''\<rparr>
     = APIError None (Some ''NETWORK_ERROR'') None \<and>
   response_interceptor \<lparr>ax_response = None, ax_has_request = False, ax_code = None\<rparr>
     = APIError None (Some ''UNKNOWN'') None"
  using
    response_interceptor_taxonomy
      [of "\<lparr>ax_response = Some \<lparr>resp_status = 429, resp_retry_after = Some ''120'', resp_data_code = None\<rparr>,
            ax_has_request = True, ax_code = None\<rparr>"
          "\<lparr>resp_status = 429, resp_retry_after = Some ''120'', resp_data_code = None\<rparr>"]
    response_interceptor_taxonomy
      [of "\<lparr>ax_response = Some \<lparr>resp_status = 502, resp_retry_after = None,
                                 resp_data_code = Some ''BAD_GATEWAY''\<rparr>,
            ax_has_request = True, ax_code = None\<rparr>"
          "\<lparr>resp_status = 502, resp_retry_after = None, resp_data_code = Some ''BAD_GATEWAY''\<rparr>"]
    response_interceptor_taxonomy
      [of "\<lparr>ax_response = None, ax_has_request = True, ax_code = Some ''ECONNABORTED''\<rparr>"]
    response_interceptor_taxonomy
      [of "\<lparr>ax_response = None, ax_has_request = True, ax_code = Some ''ERR_NETWORK''\<rparr>"]
    response_interceptor_taxonomy
      [of "\<lparr>ax_response = None, ax_has_request = False, ax_code = None\<rparr>"]
  by (simp add: truthy_string_def)

text \<open>
  C8 as stated fails: a 502 response without a body code is not classified as
  \<open>SERVER_ERROR\<close>, and a 400 response without a body code is not classified as
  \<open>UNKNOWN\<close>; both get no code at all.
\<close>

theorem response_interceptor_502_counterexample:
  "err_code (response_interceptor
     \<lparr>ax_response = Some \<lparr>resp_status = 502, resp_retry_after = None, resp_data_code = None\<rparr>,
      ax_has_request = True, ax_code = None\<rparr>) \<noteq> Some ''SERVER_ERROR'' \<and>
   err_code (response_interceptor
     \<lparr>ax_response = Some \<lparr>resp_status = 400, resp_retry_after = None, resp_data_code = None\<rparr>,
      ax_has_request = True, ax_code = None\<rparr>) \<noteq> Some ''UNKNOWN''"
  by (simp add: response_interceptor_def APIError_def)

section \<open>Properties of the token bucket\<close>















section \<open>Properties of the monitor\<close>









section \<open>Properties of the priority queue\<close>










section \<open>Properties of the circuit breaker and the drain loop\<close>

lemma handleRequestError_failure:
  assumes "recorded_as_failure s request err"
  shows "circuitBreakerFailures (handleRequestError now request err s) = circuitBreakerFailures s + 1"
    and "circuitBreakerThreshold (handleRequestError now request err s) = circuitBreakerThreshold s"
    and "circuitBreakerResetTime (handleRequestError now request err s) = circuitBreakerResetTime s"
    and "maxRetries (handleRequestError now request err s) = maxRetries s"
    and "lastCircuitBreakerTrip (handleRequestError now request err s) =
           (if circuitBreakerFailures s + 1 \<ge> circuitBreakerThreshold s then now
            else lastCircuitBreakerTrip s)"
  using assms
  by (auto simp: handleRequestError_def recorded_as_failure_def Let_def next_random_def
      split: option.splits list.splits)

lemma handle_errors_snoc:
  "handle_errors s (fs @ [(now, request, err)]) = handleRequestError now request err (handle_errors s fs)"
  by (induction s fs rule: handle_errors.induct) simp_all

lemma handle_errors_failures:
  assumes "\<forall>f\<in>set fs. recorded_as_failure s (fst (snd f)) (snd (snd f))"
  shows "circuitBreakerFailures (handle_errors s fs) = circuitBreakerFailures s + int (length fs) \<and>
         circuitBreakerThreshold (handle_errors s fs) = circuitBreakerThreshold s \<and>
         circuitBreakerResetTime (handle_errors s fs) = circuitBreakerResetTime s \<and>
         maxRetries (handle_errors s fs) = maxRetries s \<and>
         (fs \<noteq> [] \<and> circuitBreakerFailures s + int (length fs) \<ge> circuitBreakerThreshold s \<longrightarrow>
            lastCircuitBreakerTrip (handle_errors s fs) = fst (last fs))"
  using assms
proof (induction fs rule: rev_induct)
  case Nil
  show ?case by simp
next
  case (snoc f fs)
  obtain now request err where f: "f = (now, request, err)" by (cases f) auto
  from snoc.prems have all: "\<forall>f\<in>set fs. recorded_as_failure s (fst (snd f)) (snd (snd f))"
    and last: "recorded_as_failure s request err" by (simp_all add: f)
  note ih = snoc.IH [OF all]
  from ih last have "recorded_as_failure (handle_errors s fs) request err"
    by (simp add: recorded_as_failure_def)
  from handleRequestError_failure [OF this, of now] ih
  show ?case by (simp add: f handle_errors_snoc)
qed

text \<open>
  C3: start with no failures counted and handle exactly \<open>threshold\<close> errors that are
  recorded as failures, with no success in between. Before the last of them the breaker
  is closed. After the last, recorded at time \<open>openedAt\<close>, every query made less than
  \<open>circuitBreakerResetTime\<close> after \<open>openedAt\<close> answers open and changes nothing; a
  query made once that time has elapsed answers closed and resets the failure counter to
  0 in the same step.
\<close>

theorem breaker_opens_at_threshold_and_resets:
  assumes "circuitBreakerFailures s = 0" and "circuitBreakerThreshold s \<ge> 1"
    and "int (length fs) = circuitBreakerThreshold s"
    and "\<forall>f\<in>set fs. recorded_as_failure s (fst (snd f)) (snd (snd f))"
  shows "(\<forall>n < length fs. \<forall>now. fst (isCircuitBreakerOpen now (handle_errors s (take n fs))) = False) \<and>
         lastCircuitBreakerTrip (handle_errors s fs) = fst (last fs) \<and>
         (\<forall>now. now - fst (last fs) < circuitBreakerResetTime s \<longrightarrow>
            isCircuitBreakerOpen now (handle_errors s fs) = (True, handle_errors s fs)) \<and>
         (\<forall>now. now - fst (last fs) \<ge> circuitBreakerResetTime s \<longrightarrow>
            fst (isCircuitBreakerOpen now (handle_errors s fs)) = False \<and>
            circuitBreakerFailures (snd (isCircuitBreakerOpen now (handle_errors s fs))) = 0)"
proof -
  from assms(2,3) have ne: "fs \<noteq> []" by auto
  note full = handle_errors_failures [OF assms(4)]
  have early: "fst (isCircuitBreakerOpen now (handle_errors s (take n fs))) = False"
    if "n < length fs" for n now
  proof -
    have "\<forall>f\<in>set (take n fs). recorded_as_failure s (fst (snd f)) (snd (snd f))"
      using assms(4) by (auto dest: in_set_takeD)
    from handle_errors_failures [OF this] that assms(1,3)
    show ?thesis by (simp add: isCircuitBreakerOpen_def Let_def)
  qed
  from full ne assms(1,3)
  have trip: "lastCircuitBreakerTrip (handle_errors s fs) = fst (last fs)" by simp
  from full assms(1,3) trip early show ?thesis
    by (simp add: isCircuitBreakerOpen_def Let_def)
qed

text \<open>
  C3 at the limiter the API client creates (threshold 5, reset time 300000 ms) after
  five HTTP 500 errors, the last at time 500: open at 300499, closed and reset at 300500.
\<close>

theorem breaker_opens_at_threshold_and_resets_witness:
  "fst (isCircuitBreakerOpen 300499 (handle_errors (AdvancedRateLimiter 1 0 [] :: nat limiter)
      [(100, \<lparr>q_id = 1, q_requestFn = [], q_retryCount = 0, q_timestamp = 0\<rparr>, server_error),
       (200, \<lparr>q_id = 2, q_requestFn = [], q_retryCount = 0, q_timestamp = 0\<rparr>, server_error),
       (300, \<lparr>q_id = 3, q_requestFn = [], q_retryCount = 0, q_timestamp = 0\<rparr>, server_error),
       (400, \<lparr>q_id = 4, q_requestFn = [], q_retryCount = 0, q_timestamp = 0\<rparr>, server_error),
       (500, \<lparr>q_id = 5, q_requestFn = [], q_retryCount = 0, q_timestamp = 0\<rparr>, server_error)]))
     = True \<and>
   fst (isCircuitBreakerOpen 300500 (handle_errors (AdvancedRateLimiter 1 0 [] :: nat limiter)
      [(100, \<lparr>q_id = 1, q_requestFn = [], q_retryCount = 0, q_timestamp = 0\<rparr>, server_error),
       (200, \<lparr>q_id = 2, q_requestFn = [], q_retryCount = 0, q_timestamp = 0\<rparr>, server_error),
       (300, \<lparr>q_id = 3, q_requestFn = [], q_retryCount = 0, q_timestamp = 0\<rparr>, server_error),
       (400, \<lparr>q_id = 4, q_requestFn = [], q_retryCount = 0, q_timestamp = 0\<rparr>, server_error),
       (500, \<lparr>q_id = 5, q_requestFn = [], q_retryCount = 0, q_timestamp = 0\<rparr>, server_error)]))
     = False \<and>
   circuitBreakerFailures (snd (isCircuitBreakerOpen 300500
     (handle_errors (AdvancedRateLimiter 1 0 [] :: nat limiter)
      [(100, \<lparr>q_id = 1, q_requestFn = [], q_retryCount = 0, q_timestamp = 0\<rparr>, server_error),
       (200, \<lparr>q_id = 2, q_requestFn = [], q_retryCount = 0, q_timestamp = 0\<rparr>, server_error),
       (300, \<lparr>q_id = 3, q_requestFn = [], q_retryCount = 0, q_timestamp = 0\<rparr>, server_error),
       (400, \<lparr>q_id = 4, q_requestFn = [], q_retryCount = 0, q_timestamp = 0\<rparr>, server_error),
       (500, \<lparr>q_id = 5, q_requestFn = [], q_retryCount = 0, q_timestamp = 0\<rparr>, server_error)]))) = 0"
proof -
  let ?s = "AdvancedRateLimiter 1 0 [] :: nat limiter"
  let ?fs = "[(100, \<lparr>q_id = 1, q_requestFn = [], q_retryCount = 0, q_timestamp = 0\<rparr>, server_error),
       (200, \<lparr>q_id = 2, q_requestFn = [], q_retryCount = 0, q_timestamp = 0\<rparr>, server_error),
       (300, \<lparr>q_id = 3, q_requestFn = [], q_retryCount = 0, q_timestamp = 0\<rparr>, server_error),
       (400, \<lparr>q_id = 4, q_requestFn = [], q_retryCount = 0, q_timestamp = 0\<rparr>, server_error),
       (500::int, \<lparr>q_id = 5, q_requestFn = ([] :: (int \<times> nat outcome) list), q_retryCount = 0,
          q_timestamp = 0\<rparr>, server_error)]"
  have h1: "circuitBreakerFailures ?s = 0" and h2: "circuitBreakerThreshold ?s \<ge> 1"
    and h3: "int (length ?fs) = circuitBreakerThreshold ?s"
    by (simp_all add: AdvancedRateLimiter_def)
  have rl: "\<not> isRateLimitError server_error" by code_simp
  have h4: "\<forall>f\<in>set ?fs. recorded_as_failure ?s (fst (snd f)) (snd (snd f))"
    by (simp add: recorded_as_failure_def rl)
  note t = breaker_opens_at_threshold_and_resets [OF h1 h2 h3 h4]
  have early: "300499 - fst (last ?fs) < circuitBreakerResetTime ?s"
    and late: "300500 - fst (last ?fs) \<ge> circuitBreakerResetTime ?s"
    by (simp_all add: AdvancedRateLimiter_def)
  from t have "isCircuitBreakerOpen 300499 (handle_errors ?s ?fs) = (True, handle_errors ?s ?fs)"
    using early by blast
  then have b: "fst (isCircuitBreakerOpen 300499 (handle_errors ?s ?fs)) = True"
    by (simp only: fst_conv)
  from t have c: "fst (isCircuitBreakerOpen 300500 (handle_errors ?s ?fs)) = False \<and>
      circuitBreakerFailures (snd (isCircuitBreakerOpen 300500 (handle_errors ?s ?fs))) = 0"
    using late by blast
  from b c show ?thesis by blast
qed











section \<open>Properties of the deduplicator\<close>

lemma deduplicate_new:
  assumes "pendingRequests (cleanupExpiredRequests now s) key = None"
  shows "deduplicate key now now_reg s =
           (factoryCalls s,
            (cleanupExpiredRequests now s)
              \<lparr>pendingRequests := (pendingRequests (cleanupExpiredRequests now s))
                   (key \<mapsto> \<lparr>pr_promise = factoryCalls s, pr_timestamp = now_reg\<rparr>),
               factoryCalls := Suc (factoryCalls s)\<rparr>)"
  using assms by (simp add: deduplicate_def Let_def cleanupExpiredRequests_def)

lemma deduplicate_existing:
  assumes "pendingRequests s key = Some \<lparr>pr_promise = p, pr_timestamp = registered\<rparr>"
    and "now - registered \<le> requestTTL"
  shows "deduplicate key now now_reg s = (p, cleanupExpiredRequests now s)"
  using assms by (simp add: deduplicate_def Let_def cleanupExpiredRequests_def)

lemma dedup_step_leaves_registered:
  assumes "pendingRequests s key = Some \<lparr>pr_promise = p, pr_timestamp = registered\<rparr>"
    and "leaves_registered key registered e"
  shows "pendingRequests (dedup_step s e) key = Some \<lparr>pr_promise = p, pr_timestamp = registered\<rparr>"
proof (cases e)
  case (Call k now now_reg)
  with assms show ?thesis
    by (auto simp: deduplicate_def Let_def cleanupExpiredRequests_def split: option.splits)
next
  case (Settle k)
  with assms show ?thesis by (simp add: settle_def)
qed

lemma dedup_steps_leave_registered:
  assumes "pendingRequests s key = Some \<lparr>pr_promise = p, pr_timestamp = registered\<rparr>"
    and "\<forall>e\<in>set es. leaves_registered key registered e"
  shows "pendingRequests (foldl dedup_step s es) key =
           Some \<lparr>pr_promise = p, pr_timestamp = registered\<rparr>"
  using assms
proof (induction es arbitrary: s)
  case Nil
  then show ?case by simp
next
  case (Cons e es)
  from Cons.prems have "pendingRequests (dedup_step s e) key =
      Some \<lparr>pr_promise = p, pr_timestamp = registered\<rparr>"
    by (simp add: dedup_step_leaves_registered)
  from Cons.IH [OF this] Cons.prems(2) show ?case by simp
qed

text \<open>
  C6, as the deduplicator behaves: let a call for \<open>key\<close> find no live registration, so
  that it invokes the factory and registers the promise at time \<open>t1_reg\<close>. Let any
  calls and settlements follow, as long as no promise created for \<open>key\<close> settles and
  every sweep runs no later than 30000 ms after \<open>t1_reg\<close>. Then a second call for
  \<open>key\<close> whose sweep runs no later than 30000 ms after \<open>t1_reg\<close> returns the promise
  of the first call and does not invoke the factory; and when a promise created for
  \<open>key\<close> settles, with whatever outcome, no registration for \<open>key\<close> remains.
\<close>

theorem deduplicate_shares_pending_promise:
  assumes "pendingRequests (cleanupExpiredRequests t1 s) key = None"
    and "\<forall>e\<in>set es. leaves_registered key t1_reg e"
    and "t2 - t1_reg \<le> requestTTL"
  shows "fst (deduplicate key t1 t1_reg s) = factoryCalls s \<and>
         factoryCalls (snd (deduplicate key t1 t1_reg s)) = Suc (factoryCalls s) \<and>
         fst (deduplicate key t2 t2_reg (foldl dedup_step (snd (deduplicate key t1 t1_reg s)) es)) =
           fst (deduplicate key t1 t1_reg s) \<and>
         factoryCalls (snd (deduplicate key t2 t2_reg
                        (foldl dedup_step (snd (deduplicate key t1 t1_reg s)) es))) =
           factoryCalls (foldl dedup_step (snd (deduplicate key t1 t1_reg s)) es) \<and>
         pendingRequests (settle key (snd (deduplicate key t2 t2_reg
                        (foldl dedup_step (snd (deduplicate key t1 t1_reg s)) es)))) key = None"
proof -
  let ?s1 = "snd (deduplicate key t1 t1_reg s)"
  let ?s2 = "foldl dedup_step ?s1 es"
  note first = deduplicate_new [OF assms(1), of t1_reg]
  from first have reg: "pendingRequests ?s1 key =
      Some \<lparr>pr_promise = factoryCalls s, pr_timestamp = t1_reg\<rparr>" by simp
  from dedup_steps_leave_registered [OF reg assms(2)]
  have "pendingRequests ?s2 key = Some \<lparr>pr_promise = factoryCalls s, pr_timestamp = t1_reg\<rparr>" .
  from deduplicate_existing [OF this assms(3), of t2_reg]
  have second: "deduplicate key t2 t2_reg ?s2 = (factoryCalls s, cleanupExpiredRequests t2 ?s2)" .
  have "factoryCalls (cleanupExpiredRequests t2 ?s2) = factoryCalls ?s2"
    by (simp add: cleanupExpiredRequests_def)
  with first second show ?thesis by (simp add: settle_def)
qed

text \<open>
  C6 at a concrete run: a call for \<open>X\<close> at 1000, a call for \<open>Y\<close> that settles, and a
  second call for \<open>X\<close> at 31000: both calls for \<open>X\<close> get promise 0, and the factory
  has run twice in all, once for \<open>X\<close> and once for \<open>Y\<close>.
\<close>

theorem deduplicate_shares_pending_promise_witness:
  "fst (deduplicate ''X'' 1000 1000 \<lparr>pendingRequests = Map.empty, factoryCalls = 0\<rparr>) = 0 \<and>
   fst (deduplicate ''X'' 31000 31000
         (foldl dedup_step
            (snd (deduplicate ''X'' 1000 1000 \<lparr>pendingRequests = Map.empty, factoryCalls = 0\<rparr>))
            [Call ''Y'' 2000 2000, Settle ''Y''])) = 0 \<and>
   factoryCalls (snd (deduplicate ''X'' 31000 31000
         (foldl dedup_step
            (snd (deduplicate ''X'' 1000 1000 \<lparr>pendingRequests = Map.empty, factoryCalls = 0\<rparr>))
            [Call ''Y'' 2000 2000, Settle ''Y'']))) = 2"
proof -
  let ?s = "\<lparr>pendingRequests = Map.empty, factoryCalls = 0\<rparr>"
  let ?es = "[Call ''Y'' 2000 2000, Settle ''Y'']"
  have h1: "pendingRequests (cleanupExpiredRequests 1000 ?s) ''X'' = None"
    by (simp add: cleanupExpiredRequests_def)
  have h2: "\<forall>e\<in>set ?es. leaves_registered ''X'' 1000 e" by (simp add: requestTTL_def)
  have h3: "31000 - 1000 \<le> requestTTL" by (simp add: requestTTL_def)
  have calls: "factoryCalls (foldl dedup_step (snd (deduplicate ''X'' 1000 1000 ?s)) ?es) = 2"
    by (simp add: deduplicate_def cleanupExpiredRequests_def settle_def requestTTL_def Let_def)
  from deduplicate_shares_pending_promise [OF h1 h2 h3, where t2_reg = 31000] calls
  show ?thesis by simp
qed

text \<open>
  C6 as stated fails: a second call for \<open>X\<close> 30001 ms after the first, whose promise is
  still pending, sweeps the registration away, invokes the factory again and returns a
  different promise.
\<close>

theorem deduplicate_after_ttl_counterexample:
  "fst (deduplicate ''X'' 0 0 \<lparr>pendingRequests = Map.empty, factoryCalls = 0\<rparr>) = 0 \<and>
   fst (deduplicate ''X'' 30001 30001
         (snd (deduplicate ''X'' 0 0 \<lparr>pendingRequests = Map.empty, factoryCalls = 0\<rparr>))) = 1 \<and>
   factoryCalls (snd (deduplicate ''X'' 30001 30001
         (snd (deduplicate ''X'' 0 0 \<lparr>pendingRequests = Map.empty, factoryCalls = 0\<rparr>)))) = 2"
  by (simp add: deduplicate_def cleanupExpiredRequests_def requestTTL_def Let_def)

section \<open>Properties of the response cache\<close>

text \<open>
  C5 at two failing inputs. With \<open>maxSize = 1\<close>, two \<open>set\<close> calls for different keys
  in the same millisecond leave two entries: no entry was accessed strictly before the
  time \<open>evictOldest\<close> starts from, so nothing is evicted. With \<open>maxSize = 2\<close>, when
  the entry accessed longest ago has the empty string as key, a third \<open>set\<close> leaves
  three entries: the empty key is found but is falsy, so it is not deleted.
\<close>

theorem cache_set_exceeds_maxSize:
  "map fst (cache_set \<lparr>defaultTTL = 300000, maxSize = 1, compressionEnabled = False\<rparr> 100 100
              ''b'' (2::nat) None
           (cache_set \<lparr>defaultTTL = 300000, maxSize = 1, compressionEnabled = False\<rparr> 100 100
              ''a'' 1 None [])) = [''a'', ''b''] \<and>
   map fst (cache_set \<lparr>defaultTTL = 300000, maxSize = 2, compressionEnabled = False\<rparr> 300 300
              ''b'' (3::nat) None
           (cache_set \<lparr>defaultTTL = 300000, maxSize = 2, compressionEnabled = False\<rparr> 200 200
              ''a'' 2 None
           (cache_set \<lparr>defaultTTL = 300000, maxSize = 2, compressionEnabled = False\<rparr> 100 100
              [] 1 None []))) = [[], ''a'', ''b'']"
  by (simp add: cache_set_def evictOldest_def map_delete_def Let_def)

end
